theory Spec2Isabelle
  imports Main
begin

section \<open>Data model (src/types.ts and the store schema)\<close>

text \<open>
  Field names follow the source; a table prefix is added where two row types share a
  column name (\<open>id\<close>, \<open>user_id\<close>, \<open>created_at\<close>), since record fields live in one name space.
  Identifiers are strings, timestamps are natural numbers.
\<close>

datatype UserRole = Admin | Member

datatype RequestStatus = Pending | Approved | Rejected

record AccessRequest =
  req_id :: string
  req_user_id :: string
  name :: string
  reason :: string
  status :: RequestStatus
  req_created_at :: nat

text \<open>The column \<open>dp_url\<close> is nullable in the schema: \<open>None\<close> is SQL \<open>null\<close>.\<close>

record Profile =
  prof_id :: string
  prof_user_id :: string
  username :: string
  bio :: string
  dp_url :: "string option"

datatype MessageType = Text | Image | Audio

record Message =
  msg_id :: string
  sender_id :: string
  msg_type :: MessageType
  content :: string
  msg_created_at :: nat
  profiles :: "Profile option"

text \<open>
  A row of table \<open>roles\<close>. The columns \<open>id\<close> and \<open>created_at\<close> are generated by the
  server and never read by the client; they are left out.
\<close>

record RoleRow =
  role_user_id :: string
  role :: UserRole

text \<open>The store: the four tables and the objects of bucket \<open>chat-media\<close> (path and content).\<close>

record Store =
  tbl_roles :: "RoleRow list"
  tbl_access_requests :: "AccessRequest list"
  tbl_profiles :: "Profile list"
  tbl_messages :: "Message list"
  chat_media :: "(string \<times> string) list"

section \<open>Requests to the store\<close>

text \<open>
  An awaited request either resolves with an object \<open>{ data, error }\<close> or its promise
  is rejected, which the caller sees as an exception. \<open>net\<close> says what happens to one
  request: \<open>Ok\<close> the store answers it, \<open>Fails\<close> it resolves with \<open>data = null\<close> and an
  error (store unreachable, permission or constraint refusal, malformed response),
  \<open>Throws\<close> the promise is rejected. A request that is not \<open>Ok\<close> has no effect on the store.
\<close>

datatype net = Ok | Fails | Throws

datatype 'a outcome = Resolved "'a option" "string option" | Threw

definition await_request :: "net \<Rightarrow> 'a option \<times> string option \<Rightarrow> 'a outcome" where
  "await_request n r =
     (case n of
        Ok \<Rightarrow> Resolved (fst r) (snd r)
      | Fails \<Rightarrow> Resolved None (Some ''request failed'')
      | Throws \<Rightarrow> Threw)"

text \<open>
  The row-count contract of the client library's \<open>maybeSingle()\<close> and \<open>single()\<close>:
  \<open>maybeSingle\<close> gives \<open>null\<close> without error for no row, the row for one row and an
  error for several; \<open>single\<close> gives an error for no row as well.
\<close>

definition maybeSingle :: "'a list \<Rightarrow> 'a option \<times> string option" where
  "maybeSingle rows =
     (case rows of
        [] \<Rightarrow> (None, None)
      | [r] \<Rightarrow> (Some r, None)
      | _ \<Rightarrow> (None, Some ''multiple rows returned''))"

definition single :: "'a list \<Rightarrow> 'a option \<times> string option" where
  "single rows =
     (case rows of
        [r] \<Rightarrow> (Some r, None)
      | _ \<Rightarrow> (None, Some ''no row or multiple rows returned''))"

text \<open>\<open>from('roles').select('role').eq('user_id', userId).eq('role', 'admin').maybeSingle()\<close>\<close>

definition select_admin_role :: "Store \<Rightarrow> net \<Rightarrow> string \<Rightarrow> RoleRow outcome" where
  "select_admin_role st n userId =
     await_request n (maybeSingle
       (filter (\<lambda>r. role_user_id r = userId \<and> role r = Admin) (tbl_roles st)))"

text \<open>\<open>from('access_requests').select('*').eq('user_id', userId).maybeSingle()\<close>\<close>

definition select_request :: "Store \<Rightarrow> net \<Rightarrow> string \<Rightarrow> AccessRequest outcome" where
  "select_request st n userId =
     await_request n (maybeSingle
       (filter (\<lambda>r. req_user_id r = userId) (tbl_access_requests st)))"

text \<open>\<open>from('profiles').select('*').eq('user_id', userId).maybeSingle()\<close>\<close>

definition select_profile :: "Store \<Rightarrow> net \<Rightarrow> string \<Rightarrow> Profile outcome" where
  "select_profile st n userId =
     await_request n (maybeSingle
       (filter (\<lambda>p. prof_user_id p = userId) (tbl_profiles st)))"

section \<open>View resolution (src/App.tsx)\<close>

datatype AppState =
  ViewLoading | ViewAuth | ViewRequest | ViewPending | ViewRejected
  | ViewProfile | ViewChat | ViewAdmin

text \<open>The component state of \<open>App\<close> that \<open>determineView\<close> writes, and the console.\<close>

record App =
  view :: AppState
  userProfile :: "Profile option"
  userRole :: "UserRole option"
  app_console :: "string list"

definition initial_App :: App where
  "initial_App =
     \<lparr>view = ViewLoading, userProfile = None, userRole = None, app_console = []\<rparr>"

text \<open>The temporary profile object for admins without a stored profile.\<close>

definition temp_profile :: "string \<Rightarrow> Profile" where
  "temp_profile userId =
     \<lparr>prof_id = ''admin-temp'', prof_user_id = userId, username = ''Admin'',
      bio = ''System Administrator'', dp_url = Some ''''\<rparr>"

text \<open>The \<open>catch\<close> block of \<open>determineView\<close>.\<close>

definition determineView_catch :: "App \<Rightarrow> App" where
  "determineView_catch app =
     app\<lparr>app_console := app_console app @ [''State determination error:''],
         view := ViewAuth\<rparr>"

text \<open>
  \<open>determineView\<close>: the three \<open>net\<close>s are those of the role query, the access-request
  query and the profile query (one run issues at most one profile query). The view
  that the first line tests is taken to be the current one. Only \<open>data\<close> of each
  response is read; \<open>error\<close> is never looked at.
\<close>

definition determineView :: "Store \<Rightarrow> net \<times> net \<times> net \<Rightarrow> string \<Rightarrow> App \<Rightarrow> App" where
  "determineView st nets userId app =
     (case nets of (nRole, nRequest, nProfile) \<Rightarrow>
      let app0 = (if view app = ViewAuth then app\<lparr>view := ViewLoading\<rparr> else app) in
      case select_admin_role st nRole userId of
        Threw \<Rightarrow> determineView_catch app0
      | Resolved roleData _ \<Rightarrow>
         (case roleData of
            Some _ \<Rightarrow>
              (let app1 = app0\<lparr>userRole := Some Admin\<rparr> in
               case select_profile st nProfile userId of
                 Threw \<Rightarrow> determineView_catch app1
               | Resolved profileData _ \<Rightarrow>
                  (let app2 =
                     (case profileData of
                        Some p \<Rightarrow> app1\<lparr>userProfile := Some p\<rparr>
                      | None \<Rightarrow> app1\<lparr>userProfile := Some (temp_profile userId)\<rparr>)
                   in app2\<lparr>view := (if view app2 = ViewChat then ViewChat else ViewAdmin)\<rparr>))
          | None \<Rightarrow>
              (let app1 = app0\<lparr>userRole := Some Member\<rparr> in
               case select_request st nRequest userId of
                 Threw \<Rightarrow> determineView_catch app1
               | Resolved requestData _ \<Rightarrow>
                  (case requestData of
                     None \<Rightarrow> app1\<lparr>view := ViewRequest\<rparr>
                   | Some request \<Rightarrow>
                      (case status request of
                         Pending \<Rightarrow> app1\<lparr>view := ViewPending\<rparr>
                       | Rejected \<Rightarrow> app1\<lparr>view := ViewRejected\<rparr>
                       | Approved \<Rightarrow>
                          (case select_profile st nProfile userId of
                             Threw \<Rightarrow> determineView_catch app1
                           | Resolved profileData _ \<Rightarrow>
                              (case profileData of
                                 Some p \<Rightarrow> app1\<lparr>userProfile := Some p, view := ViewChat\<rparr>
                               | None \<Rightarrow> app1\<lparr>view := ViewProfile\<rparr>)))))))"

section \<open>Admin decision workflow (AdminDashboard)\<close>

text \<open>
  A mutation that the store answers (\<open>Ok\<close>) installs the new store and resolves
  without data and without error.
\<close>

definition mutate :: "net \<Rightarrow> Store \<Rightarrow> Store \<Rightarrow> Store \<times> unit outcome" where
  "mutate n st st' =
     (case n of
        Ok \<Rightarrow> (st', Resolved None None)
      | Fails \<Rightarrow> (st, Resolved None (Some ''request failed''))
      | Throws \<Rightarrow> (st, Threw))"

text \<open>\<open>from('access_requests').update({ status }).eq('id', id)\<close>\<close>

definition update_status :: "Store \<Rightarrow> net \<Rightarrow> string \<Rightarrow> RequestStatus \<Rightarrow> Store \<times> unit outcome" where
  "update_status st n id' status' =
     mutate n st
       (st\<lparr>tbl_access_requests :=
             map (\<lambda>r. if req_id r = id' then r\<lparr>status := status'\<rparr> else r)
               (tbl_access_requests st)\<rparr>)"

text \<open>
  An upsert with \<open>onConflict: 'user_id'\<close>: the rows of that user take the new role;
  without such a row the new row is inserted.
\<close>

definition upsert_on_user_id :: "RoleRow \<Rightarrow> RoleRow list \<Rightarrow> RoleRow list" where
  "upsert_on_user_id row rows =
     (if list_ex (\<lambda>r. role_user_id r = role_user_id row) rows
      then map (\<lambda>r. if role_user_id r = role_user_id row then r\<lparr>role := role row\<rparr> else r) rows
      else rows @ [row])"

text \<open>
  \<open>from('roles').upsert([{ user_id: userId, role: 'member' }], { onConflict: 'user_id' })\<close>
\<close>

definition upsert_member :: "Store \<Rightarrow> net \<Rightarrow> string \<Rightarrow> Store \<times> unit outcome" where
  "upsert_member st n userId =
     mutate n st
       (st\<lparr>tbl_roles :=
             upsert_on_user_id \<lparr>role_user_id = userId, role = Member\<rparr> (tbl_roles st)\<rparr>)"

text \<open>\<open>from('roles').delete().eq('user_id', userId)\<close>\<close>

definition delete_role :: "Store \<Rightarrow> net \<Rightarrow> string \<Rightarrow> Store \<times> unit outcome" where
  "delete_role st n userId =
     mutate n st
       (st\<lparr>tbl_roles := filter (\<lambda>r. role_user_id r \<noteq> userId) (tbl_roles st)\<rparr>)"

text \<open>
  \<open>from('access_requests').select('*').neq('status', 'pending')
     .order('created_at', { ascending: false })\<close>
\<close>

definition select_decided_requests :: "Store \<Rightarrow> net \<Rightarrow> AccessRequest list outcome" where
  "select_decided_requests st n =
     await_request n
       (Some (rev (sort_key req_created_at
                (filter (\<lambda>r. status r \<noteq> Pending) (tbl_access_requests st)))), None)"

text \<open>\<open>from('profiles').select('*').in('user_id', userIds)\<close>\<close>

definition select_profiles_in :: "Store \<Rightarrow> net \<Rightarrow> string list \<Rightarrow> Profile list outcome" where
  "select_profiles_in st n userIds =
     await_request n
       (Some (filter (\<lambda>p. prof_user_id p \<in> set userIds) (tbl_profiles st)), None)"

datatype Tab = TabRequests | TabUsers

record UserView = AccessRequest +
  profile :: "Profile option"

text \<open>The component state of \<open>AdminDashboard\<close>, with the alerts shown and the console.\<close>

record Dashboard =
  activeTab :: Tab
  requests :: "AccessRequest list"
  allUsers :: "UserView list"
  dash_loading :: bool
  actionLoading :: "string option"
  dash_alerts :: "string list"
  dash_console :: "string list"

text \<open>An asynchronous function returns, or throws with the state it has reached.\<close>

datatype 'a completion = Returned 'a | Raised 'a

definition fetchAllUsers :: "Store \<Rightarrow> net \<times> net \<Rightarrow> Dashboard \<Rightarrow> Dashboard completion" where
  "fetchAllUsers st nets d =
     (case nets of (nRequests, nProfiles) \<Rightarrow>
      let d1 = d\<lparr>dash_loading := True\<rparr> in
      case select_decided_requests st nRequests of
        Threw \<Rightarrow> Raised d1
      | Resolved requestData reqError \<Rightarrow>
         (case (reqError, requestData) of
            (None, Some reqs) \<Rightarrow>
              (case select_profiles_in st nProfiles (map req_user_id reqs) of
                 Threw \<Rightarrow> Raised d1
               | Resolved profileData _ \<Rightarrow>
                  Returned (d1\<lparr>allUsers :=
                      map (\<lambda>req. AccessRequest.extend req
                             (UserView.fields
                                (case profileData of
                                   None \<Rightarrow> None
                                 | Some ps \<Rightarrow>
                                     find (\<lambda>p. prof_user_id p = req_user_id req) ps)))
                        reqs,
                    dash_loading := False\<rparr>))
          | _ \<Rightarrow> Returned (d1\<lparr>dash_loading := False\<rparr>)))"

text \<open>The \<open>catch\<close> block of \<open>handleDecision\<close>, followed by its \<open>finally\<close> block.\<close>

definition handleDecision_catch :: "Dashboard \<Rightarrow> Dashboard" where
  "handleDecision_catch d =
     d\<lparr>dash_console := dash_console d @ [''Error processing decision:''],
       dash_alerts := dash_alerts d @ [''Failed to update user status''],
       actionLoading := None\<rparr>"

text \<open>
  \<open>handleDecision(id, userId, status)\<close>. The \<open>net\<close>s are those of the status update, of
  the role upsert or delete, and of the two queries of \<open>fetchAllUsers\<close>. The source's
  parameter type admits \<open>approved\<close> and \<open>rejected\<close> only. The response of the role
  request is awaited and dropped.
\<close>

definition handleDecision ::
  "Store \<times> Dashboard \<Rightarrow> net \<times> net \<times> net \<times> net \<Rightarrow> string \<Rightarrow> string \<Rightarrow> RequestStatus
     \<Rightarrow> Store \<times> Dashboard" where
  "handleDecision sd nets id' userId status' =
     (case sd of (st, d) \<Rightarrow>
      case nets of (nUpdate, nRole, nFetch) \<Rightarrow>
      let d1 = d\<lparr>actionLoading := Some id'\<rparr> in
      case update_status st nUpdate id' status' of (st1, upd) \<Rightarrow>
        (case upd of
           Threw \<Rightarrow> (st1, handleDecision_catch d1)
         | Resolved _ (Some updateError) \<Rightarrow> (st1, handleDecision_catch d1)
         | Resolved _ None \<Rightarrow>
            (case (if status' = Approved then upsert_member st1 nRole userId
                   else delete_role st1 nRole userId) of (st2, roleRes) \<Rightarrow>
               (case roleRes of
                  Threw \<Rightarrow> (st2, handleDecision_catch d1)
                | Resolved _ _ \<Rightarrow>
                   (if activeTab d1 = TabRequests
                    then (st2, d1\<lparr>requests := filter (\<lambda>r. req_id r \<noteq> id') (requests d1),
                                  actionLoading := None\<rparr>)
                    else (case fetchAllUsers st2 nFetch d1 of
                            Raised d2 \<Rightarrow> (st2, handleDecision_catch d2)
                          | Returned d2 \<Rightarrow> (st2, d2\<lparr>actionLoading := None\<rparr>)))))))"

section \<open>Message feed (ChatInterface)\<close>

text \<open>The component state of \<open>ChatInterface\<close>, with the alerts shown and the console.\<close>

record Chat =
  messages :: "Message list"
  newMessage :: string
  chat_loading :: bool
  sending :: bool
  chat_alerts :: "string list"
  chat_console :: "string list"

text \<open>
  \<open>from('messages').select('*, profiles(*)').order('created_at', { ascending: true })\<close>:
  the rows in ascending order of \<open>created_at\<close>, each with the profile of its sender if
  there is one.
\<close>

definition select_messages :: "Store \<Rightarrow> net \<Rightarrow> Message list outcome" where
  "select_messages st n =
     await_request n
       (Some (map (\<lambda>m. m\<lparr>profiles :=
                          find (\<lambda>p. prof_user_id p = sender_id m) (tbl_profiles st)\<rparr>)
                (sort_key msg_created_at (tbl_messages st))), None)"

text \<open>\<open>from('profiles').select('*').eq('user_id', newMsg.sender_id).single()\<close>\<close>

definition select_sender_profile :: "Store \<Rightarrow> net \<Rightarrow> string \<Rightarrow> Profile outcome" where
  "select_sender_profile st n senderId =
     await_request n (single (filter (\<lambda>p. prof_user_id p = senderId) (tbl_profiles st)))"

text \<open>
  \<open>fetchMessages\<close> runs up to its \<open>await\<close> when the component mounts and resumes when
  the response is there.
\<close>

definition fetchMessages_begin :: "Chat \<Rightarrow> Chat" where
  "fetchMessages_begin c = c\<lparr>chat_loading := True\<rparr>"

definition fetchMessages_resume :: "Message list outcome \<Rightarrow> Chat \<Rightarrow> Chat" where
  "fetchMessages_resume r c =
     (case r of
        Threw \<Rightarrow> c
      | Resolved data' error' \<Rightarrow>
         (case (error', data') of
            (None, Some ms) \<Rightarrow> c\<lparr>messages := ms, chat_loading := False\<rparr>
          | _ \<Rightarrow> c\<lparr>chat_loading := False\<rparr>))"

text \<open>The dummy profile that the subscription callback displays when the lookup has no data.\<close>

definition dummy_profile :: "string \<Rightarrow> Profile" where
  "dummy_profile senderId =
     \<lparr>prof_id = ''admin'', prof_user_id = senderId, username = ''Admin'',
      bio = ''Administrator'', dp_url = None\<rparr>"

text \<open>
  The subscription callback for one insert event: it takes \<open>payload.new\<close>, issues the
  profile lookup and waits; when the lookup is there it appends. A rejected lookup
  ends the callback without an append.
\<close>

definition on_insert_resume :: "Message \<Rightarrow> Profile outcome \<Rightarrow> Chat \<Rightarrow> Chat" where
  "on_insert_resume newMsg r c =
     (case r of
        Threw \<Rightarrow> c
      | Resolved data' _ \<Rightarrow>
         (let displayProfile =
                (case data' of Some p \<Rightarrow> p | None \<Rightarrow> dummy_profile (sender_id newMsg))
          in c\<lparr>messages := messages c @ [newMsg\<lparr>profiles := Some displayProfile\<rparr>]\<rparr>))"

text \<open>
  What the event loop runs for the subscription: an insert event arrives (the callback
  starts and suspends at its lookup, the state is untouched), or the lookup of an
  earlier event completes (the callback resumes). The order of the completions is the
  order in which the responses come back.
\<close>

datatype feed_event = InsertArrived Message | LookupDone Message "Profile outcome"

fun feed_step :: "Chat \<Rightarrow> feed_event \<Rightarrow> Chat" where
  "feed_step c (InsertArrived newMsg) = c"
| "feed_step c (LookupDone newMsg r) = on_insert_resume newMsg r c"

definition feed_run :: "feed_event list \<Rightarrow> Chat \<Rightarrow> Chat" where
  "feed_run es c = foldl feed_step c es"

text \<open>The insert events of a run in the order of their arrival.\<close>

fun arrivals :: "feed_event list \<Rightarrow> Message list" where
  "arrivals [] = []"
| "arrivals (InsertArrived m # es) = m # arrivals es"
| "arrivals (LookupDone m r # es) = arrivals es"

text \<open>
  The entries of a run: one per completed lookup, in the order of completion, each the
  event's message with the profile found or else the dummy profile.
\<close>

fun entries :: "feed_event list \<Rightarrow> Message list" where
  "entries [] = []"
| "entries (InsertArrived m # es) = entries es"
| "entries (LookupDone m Threw # es) = entries es"
| "entries (LookupDone m (Resolved (Some p) e) # es) = m\<lparr>profiles := Some p\<rparr> # entries es"
| "entries (LookupDone m (Resolved None e) # es) =
     m\<lparr>profiles := Some (dummy_profile (sender_id m))\<rparr> # entries es"

text \<open>
  \<open>from('messages').insert([{ sender_id, type, content }])\<close>: the server generates the id
  and the timestamp of the row (\<open>gen\<close>).
\<close>

definition insert_message ::
  "Store \<Rightarrow> net \<Rightarrow> string \<times> nat \<Rightarrow> string \<Rightarrow> MessageType \<Rightarrow> string \<Rightarrow> Store \<times> unit outcome" where
  "insert_message st n gen senderId type' content' =
     mutate n st
       (st\<lparr>tbl_messages := tbl_messages st @
             [\<lparr>msg_id = fst gen, sender_id = senderId, msg_type = type', content = content',
               msg_created_at = snd gen, profiles = None\<rparr>]\<rparr>)"

text \<open>
  \<open>handleSendMessage(type, content)\<close> of the user \<open>userId\<close>. The response of the insert
  is awaited and dropped.
\<close>

definition handleSendMessage ::
  "Store \<times> Chat \<Rightarrow> net \<Rightarrow> string \<times> nat \<Rightarrow> string \<Rightarrow> MessageType \<Rightarrow> string \<Rightarrow> Store \<times> Chat" where
  "handleSendMessage sc n gen userId type' content' =
     (case sc of (st, c) \<Rightarrow>
      let c1 = c\<lparr>sending := True\<rparr> in
      case insert_message st n gen userId type' content' of (st1, res) \<Rightarrow>
        (case res of
           Threw \<Rightarrow>
             (st1, c1\<lparr>chat_console := chat_console c1 @ [''insert rejected''],
                      sending := False\<rparr>)
         | Resolved _ _ \<Rightarrow> (st1, c1\<lparr>newMessage := [], sending := False\<rparr>)))"

text \<open>
  \<open>storage.from('chat-media').upload(fileName, body)\<close>; \<open>data.path\<close> is the path stored,
  for a file name that the client stores as it is given.
\<close>

definition upload :: "Store \<Rightarrow> net \<Rightarrow> string \<Rightarrow> string \<Rightarrow> Store \<times> string outcome" where
  "upload st n fileName body =
     (case n of
        Ok \<Rightarrow> (st\<lparr>chat_media := chat_media st @ [(fileName, body)]\<rparr>,
               Resolved (Some fileName) None)
      | Fails \<Rightarrow> (st, Resolved None (Some ''upload failed''))
      | Throws \<Rightarrow> (st, Threw))"

text \<open>
  The public URL of a stored path, relative to the project's storage URL, for a path
  that needs no escaping in a URL.
\<close>

definition getPublicUrl :: "string \<Rightarrow> string" where
  "getPublicUrl path = ''/object/public/chat-media/'' @ path"

text \<open>\<open>file.name.split('.').pop()\<close>: what follows the last dot, or the whole name.\<close>

definition fileExt_of :: "string \<Rightarrow> string" where
  "fileExt_of fname = rev (takeWhile (\<lambda>ch. ch \<noteq> CHR ''.'') (rev fname))"

record File =
  file_name :: string
  file_body :: string

text \<open>The \<open>catch\<close> block of an upload handler, followed by its \<open>finally\<close> block.\<close>

definition upload_catch :: "string \<Rightarrow> Chat \<Rightarrow> Chat" where
  "upload_catch msg c = c\<lparr>chat_console := chat_console c @ [msg], sending := False\<rparr>"

text \<open>
  \<open>handleImageUpload\<close> and \<open>uploadAudio\<close>. \<open>now\<close> is \<open>Date.now()\<close> as it is printed in
  the file name; the \<open>net\<close>s are those of the upload and of the message insert.
\<close>

definition handleImageUpload ::
  "Store \<times> Chat \<Rightarrow> net \<times> net \<Rightarrow> string \<Rightarrow> string \<times> nat \<Rightarrow> string \<Rightarrow> File option
     \<Rightarrow> Store \<times> Chat" where
  "handleImageUpload sc nets now gen userId file =
     (case sc of (st, c) \<Rightarrow>
      case nets of (nUpload, nInsert) \<Rightarrow>
      case file of
        None \<Rightarrow> (st, c)
      | Some f \<Rightarrow>
         (let c1 = c\<lparr>sending := True\<rparr>;
              fileExt = fileExt_of (file_name f);
              fileName = ''images/'' @ userId @ ''-'' @ now @ ''.'' @ fileExt in
          case upload st nUpload fileName (file_body f) of (st1, res) \<Rightarrow>
            (case res of
               Threw \<Rightarrow> (st1, upload_catch ''Error uploading image:'' c1)
             | Resolved _ (Some error') \<Rightarrow> (st1, upload_catch ''Error uploading image:'' c1)
             | Resolved None None \<Rightarrow> (st1, upload_catch ''Error uploading image:'' c1)
             | Resolved (Some path) None \<Rightarrow>
                (case handleSendMessage (st1, c1) nInsert gen userId Image (getPublicUrl path)
                 of (st2, c2) \<Rightarrow> (st2, c2\<lparr>sending := False\<rparr>)))))"

definition uploadAudio ::
  "Store \<times> Chat \<Rightarrow> net \<times> net \<Rightarrow> string \<Rightarrow> string \<times> nat \<Rightarrow> string \<Rightarrow> string
     \<Rightarrow> Store \<times> Chat" where
  "uploadAudio sc nets now gen userId blob =
     (case sc of (st, c) \<Rightarrow>
      case nets of (nUpload, nInsert) \<Rightarrow>
      let c1 = c\<lparr>sending := True\<rparr>;
          fileName = ''audio/'' @ userId @ ''-'' @ now @ ''.webm'' in
      case upload st nUpload fileName blob of (st1, res) \<Rightarrow>
        (case res of
           Threw \<Rightarrow> (st1, upload_catch ''Error uploading audio:'' c1)
         | Resolved _ (Some error') \<Rightarrow> (st1, upload_catch ''Error uploading audio:'' c1)
         | Resolved None None \<Rightarrow> (st1, upload_catch ''Error uploading audio:'' c1)
         | Resolved (Some path) None \<Rightarrow>
            (case handleSendMessage (st1, c1) nInsert gen userId Audio (getPublicUrl path)
             of (st2, c2) \<Rightarrow> (st2, c2\<lparr>sending := False\<rparr>))))"

section \<open>Store predicates and sample data\<close>

text \<open>What the claims say about a user \<open>u\<close> in a store.\<close>

definition is_admin :: "Store \<Rightarrow> string \<Rightarrow> bool" where
  "is_admin st u = list_ex (\<lambda>r. role_user_id r = u \<and> role r = Admin) (tbl_roles st)"

definition has_approved_request :: "Store \<Rightarrow> string \<Rightarrow> bool" where
  "has_approved_request st u =
     list_ex (\<lambda>r. req_user_id r = u \<and> status r = Approved) (tbl_access_requests st)"

definition has_profile :: "Store \<Rightarrow> string \<Rightarrow> bool" where
  "has_profile st u = list_ex (\<lambda>p. prof_user_id p = u) (tbl_profiles st)"

definition roles_of :: "Store \<Rightarrow> string \<Rightarrow> RoleRow list" where
  "roles_of st u = filter (\<lambda>r. role_user_id r = u) (tbl_roles st)"

definition requests_of :: "Store \<Rightarrow> string \<Rightarrow> AccessRequest list" where
  "requests_of st u = filter (\<lambda>r. req_user_id r = u) (tbl_access_requests st)"

text \<open>
  The schema declares \<open>user_id\<close> unique in \<open>roles\<close> and in \<open>profiles\<close>. It does not for
  \<open>access_requests\<close>, where one request per user is an assumption of the resolver.
\<close>

definition unique_role_users :: "Store \<Rightarrow> bool" where
  "unique_role_users st = distinct (map role_user_id (tbl_roles st))"

definition unique_profile_users :: "Store \<Rightarrow> bool" where
  "unique_profile_users st = distinct (map prof_user_id (tbl_profiles st))"

definition one_request_per_user :: "Store \<Rightarrow> bool" where
  "one_request_per_user st = distinct (map req_user_id (tbl_access_requests st))"

text \<open>
  A sample store: an admin \<open>root\<close> without profile, an approved member \<open>alex\<close> with role,
  request and profile, and two messages stored out of order of creation.
\<close>

definition alex_request :: AccessRequest where
  "alex_request =
     \<lparr>req_id = ''r1'', req_user_id = ''alex'', name = ''Alex'', reason = ''hello'',
      status = Approved, req_created_at = 1\<rparr>"

definition alex_profile :: Profile where
  "alex_profile =
     \<lparr>prof_id = ''p1'', prof_user_id = ''alex'', username = ''alex'', bio = ''hi'',
      dp_url = None\<rparr>"

definition msg_of :: "string \<Rightarrow> string \<Rightarrow> nat \<Rightarrow> Message" where
  "msg_of i s t =
     \<lparr>msg_id = i, sender_id = s, msg_type = Text, content = ''hello'',
      msg_created_at = t, profiles = None\<rparr>"

definition sample_store :: Store where
  "sample_store =
     \<lparr>tbl_roles = [\<lparr>role_user_id = ''root'', role = Admin\<rparr>,
                   \<lparr>role_user_id = ''alex'', role = Member\<rparr>],
      tbl_access_requests = [alex_request],
      tbl_profiles = [alex_profile],
      tbl_messages = [msg_of ''m0'' ''alex'' 7, msg_of ''m9'' ''root'' 3],
      chat_media = []\<rparr>"

definition sample_Dashboard :: Dashboard where
  "sample_Dashboard =
     \<lparr>activeTab = TabUsers, requests = [], allUsers = [], dash_loading = False,
      actionLoading = None, dash_alerts = [], dash_console = []\<rparr>"

definition sample_Chat :: Chat where
  "sample_Chat =
     \<lparr>messages = [], newMessage = ''hello'', chat_loading = False, sending = False,
      chat_alerts = [], chat_console = []\<rparr>"

text \<open>
  A sample run of the subscription: two events arrive and the lookup of the second one
  completes first.
\<close>

definition sample_run :: "feed_event list" where
  "sample_run =
     [InsertArrived (msg_of ''m1'' ''alex'' 10),
      InsertArrived (msg_of ''m2'' ''root'' 11),
      LookupDone (msg_of ''m2'' ''root'' 11) (select_sender_profile sample_store Ok ''root''),
      LookupDone (msg_of ''m1'' ''alex'' 10) (select_sender_profile sample_store Ok ''alex'')]"

section \<open>Row lookups under the uniqueness constraints\<close>

lemma filter_key_le1:
  "distinct (map f xs) \<Longrightarrow> length (filter (\<lambda>x. f x = k \<and> P x) xs) \<le> 1"
proof (induction xs)
  case Nil
  then show ?case by simp
next
  case (Cons x xs)
  show ?case
  proof (cases "f x = k")
    case True
    with Cons.prems have "k \<notin> f ` set xs" by simp
    then have "\<forall>y\<in>set xs. f y \<noteq> k" by blast
    then have "filter (\<lambda>x. f x = k \<and> P x) xs = []" by (simp add: filter_empty_conv)
    then show ?thesis by simp
  next
    case False
    with Cons show ?thesis by simp
  qed
qed

lemma maybeSingle_filter_find:
  "length (filter P xs) \<le> 1 \<Longrightarrow> maybeSingle (filter P xs) = (find P xs, None)"
proof (induction xs)
  case Nil
  then show ?case by (simp add: maybeSingle_def)
next
  case (Cons x xs)
  show ?case
  proof (cases "P x")
    case True
    with Cons.prems have "filter P xs = []" by simp
    with True show ?thesis by (simp add: maybeSingle_def)
  next
    case False
    with Cons show ?thesis by simp
  qed
qed

lemma select_admin_role_Ok:
  assumes "unique_role_users st"
  shows "select_admin_role st Ok u =
           Resolved (find (\<lambda>r. role_user_id r = u \<and> role r = Admin) (tbl_roles st)) None"
  using filter_key_le1 [of role_user_id "tbl_roles st" u "\<lambda>r. role r = Admin"] assms
  by (simp add: select_admin_role_def await_request_def unique_role_users_def
      maybeSingle_filter_find)

lemma select_request_Ok:
  assumes "one_request_per_user st"
  shows "select_request st Ok u =
           Resolved (find (\<lambda>r. req_user_id r = u) (tbl_access_requests st)) None"
  using filter_key_le1 [of req_user_id "tbl_access_requests st" u "\<lambda>r. True"] assms
  by (simp add: select_request_def await_request_def one_request_per_user_def
      maybeSingle_filter_find)

lemma select_profile_Ok:
  assumes "unique_profile_users st"
  shows "select_profile st Ok u =
           Resolved (find (\<lambda>p. prof_user_id p = u) (tbl_profiles st)) None"
  using filter_key_le1 [of prof_user_id "tbl_profiles st" u "\<lambda>r. True"] assms
  by (simp add: select_profile_def await_request_def unique_profile_users_def
      maybeSingle_filter_find)

lemma find_None_list_ex: "find P xs = None \<longleftrightarrow> \<not> list_ex P xs"
  by (auto simp: find_None_iff list_ex_iff)

lemma find_key_Some:
  "distinct (map f xs) \<Longrightarrow> find (\<lambda>x. f x = k) xs = Some r \<Longrightarrow>
     list_ex (\<lambda>x. f x = k \<and> Q x) xs = Q r"
proof (induction xs)
  case Nil
  then show ?case by simp
next
  case (Cons x xs)
  show ?case
  proof (cases "f x = k")
    case True
    with Cons.prems have r: "r = x" and "k \<notin> f ` set xs" by simp_all
    then have "\<forall>y\<in>set xs. f y \<noteq> k" by blast
    then have "\<not> list_ex (\<lambda>x. f x = k \<and> Q x) xs" by (simp add: list_ex_iff)
    with True r show ?thesis by simp
  next
    case False
    with Cons show ?thesis by simp
  qed
qed

section \<open>View resolution: claims\<close>

lemmas query_defs =
  select_admin_role_def select_request_def select_profile_def await_request_def
  maybeSingle_def single_def

lemmas sample_defs =
  sample_store_def alex_request_def alex_profile_def msg_of_def sample_Dashboard_def
  sample_Chat_def initial_App_def

lemmas store_pred_defs =
  is_admin_def has_approved_request_def has_profile_def roles_of_def requests_of_def
  unique_role_users_def unique_profile_users_def one_request_per_user_def

text \<open>
  C1 (as amended). In a store that respects the uniqueness of \<open>user_id\<close> in \<open>roles\<close> and
  \<open>profiles\<close> and holds at most one access request per user, and with every query
  answered, the resolver yields the chat view if and only if either the user has an
  admin role and the current view is already chat, or the user has no admin role and
  both an approved access request and a profile exist for the user. The result is a
  function of the store and of the current view.
\<close>

theorem C1_chat_iff:
  assumes "unique_role_users st" and "unique_profile_users st" and "one_request_per_user st"
  shows "view (determineView st (Ok, Ok, Ok) u app) = ViewChat \<longleftrightarrow>
           (is_admin st u \<and> view app = ViewChat) \<or>
           (\<not> is_admin st u \<and> has_approved_request st u \<and> has_profile st u)"
proof (cases "find (\<lambda>r. role_user_id r = u \<and> role r = Admin) (tbl_roles st)")
  case None
  then have na: "\<not> is_admin st u" by (simp add: find_None_list_ex is_admin_def)
  show ?thesis
  proof (cases "find (\<lambda>r. req_user_id r = u) (tbl_access_requests st)")
    case None
    then have "\<not> has_approved_request st u"
      by (auto simp: has_approved_request_def find_None_iff list_ex_iff)
    with na None \<open>find _ (tbl_roles st) = None\<close> show ?thesis
      by (simp add: determineView_def select_admin_role_Ok select_request_Ok assms)
  next
    case (Some req)
    have ap: "has_approved_request st u = (status req = Approved)"
      unfolding has_approved_request_def
      using find_key_Some [of req_user_id "tbl_access_requests st" u req
          "\<lambda>r. status r = Approved"] Some assms(3)
      by (simp add: one_request_per_user_def)
    have hp: "has_profile st u \<longleftrightarrow> find (\<lambda>p. prof_user_id p = u) (tbl_profiles st) \<noteq> None"
      by (simp add: has_profile_def find_None_list_ex)
    from na Some \<open>find _ (tbl_roles st) = None\<close> ap hp show ?thesis
      by (cases "status req"; cases "find (\<lambda>p. prof_user_id p = u) (tbl_profiles st)")
         (simp_all add: determineView_def select_admin_role_Ok select_request_Ok
           select_profile_Ok assms)
  qed
next
  case (Some r)
  then have a: "is_admin st u"
    using find_None_list_ex [of "\<lambda>r. role_user_id r = u \<and> role r = Admin" "tbl_roles st"]
    by (simp add: is_admin_def)
  with Some show ?thesis
    by (cases "find (\<lambda>p. prof_user_id p = u) (tbl_profiles st)")
       (simp_all add: determineView_def select_admin_role_Ok select_profile_Ok assms)
qed

text \<open>The amended C1 at the approved member \<open>alex\<close> of the sample store.\<close>

theorem C1_chat_iff_witness:
  "unique_role_users sample_store \<and> unique_profile_users sample_store \<and>
   one_request_per_user sample_store \<and>
   view (determineView sample_store (Ok, Ok, Ok) ''alex'' initial_App) = ViewChat \<and>
   \<not> is_admin sample_store ''alex'' \<and> has_approved_request sample_store ''alex'' \<and>
   has_profile sample_store ''alex''"
proof -
  have h: "unique_role_users sample_store" "unique_profile_users sample_store"
    "one_request_per_user sample_store"
    by (simp_all add: store_pred_defs sample_defs)
  have n: "\<not> is_admin sample_store ''alex''"
    by (simp add: store_pred_defs sample_defs)
  have a: "has_approved_request sample_store ''alex''" "has_profile sample_store ''alex''"
    by (simp_all add: store_pred_defs sample_defs)
  from C1_chat_iff [OF h, of "''alex''" initial_App] h n a show ?thesis by simp
qed

text \<open>
  C1 as stated fails: the admin \<open>root\<close> of the sample store, resolved from the initial
  state of the application, gets the admin dashboard and not the chat view.
\<close>

theorem C1_admin_not_chat_counterexample:
  "is_admin sample_store ''root'' \<and>
   view (determineView sample_store (Ok, Ok, Ok) ''root'' initial_App) = ViewAdmin \<and>
   ViewAdmin \<noteq> ViewChat"
  by (simp add: store_pred_defs sample_defs determineView_def query_defs)

text \<open>
  C2. Queries that resolve with an error do not lead to the unauthenticated view: the
  resolver reads \<open>data\<close> only, so a failed query looks like an absent row. For the
  approved member \<open>alex\<close>: with all queries failing the view is the request form; with
  the role and profile queries failing it is the profile form.
\<close>

theorem C2_failed_queries_not_auth:
  "view (determineView sample_store (Fails, Fails, Fails) ''alex'' initial_App) = ViewRequest \<and>
   view (determineView sample_store (Fails, Ok, Fails) ''alex'' initial_App) = ViewProfile \<and>
   view (determineView sample_store (Ok, Ok, Ok) ''alex'' initial_App) = ViewChat"
  by (simp add: sample_defs determineView_def query_defs)

text \<open>Only a rejected promise reaches the \<open>catch\<close> block.\<close>

lemma determineView_Throws:
  "view (determineView st (Throws, nR, nP) u app) = ViewAuth"
  by (simp add: determineView_def select_admin_role_def await_request_def
      determineView_catch_def)



text \<open>
  C10. Two stores whose role tables agree once the member rows of user \<open>u\<close> are
  removed, and whose access requests and profiles agree, resolve \<open>u\<close> to the same
  state, whatever happens to the queries.
\<close>

theorem C10_member_row_irrelevant:
  assumes "filter (\<lambda>r. \<not> (role_user_id r = u \<and> role r = Member)) (tbl_roles st1) =
           filter (\<lambda>r. \<not> (role_user_id r = u \<and> role r = Member)) (tbl_roles st2)"
    and "tbl_access_requests st1 = tbl_access_requests st2"
    and "tbl_profiles st1 = tbl_profiles st2"
  shows "determineView st1 nets u app = determineView st2 nets u app"
proof -
  have adm: "filter (\<lambda>r. role_user_id r = u \<and> role r = Admin) rows =
             filter (\<lambda>r. role_user_id r = u \<and> role r = Admin)
               (filter (\<lambda>r. \<not> (role_user_id r = u \<and> role r = Member)) rows)" for rows
    by (induction rows) auto
  have "filter (\<lambda>r. role_user_id r = u \<and> role r = Admin) (tbl_roles st1) =
        filter (\<lambda>r. role_user_id r = u \<and> role r = Admin) (tbl_roles st2)"
    by (subst adm [of "tbl_roles st1"], subst adm [of "tbl_roles st2"])
       (simp only: assms(1))
  then have a: "select_admin_role st1 n u = select_admin_role st2 n u" for n
    by (simp only: select_admin_role_def)
  have b: "select_request st1 n u = select_request st2 n u" for n
    by (simp add: select_request_def assms(2))
  have c: "select_profile st1 n u = select_profile st2 n u" for n
    by (simp add: select_profile_def assms(3))
  show ?thesis
    unfolding determineView_def a b c ..
qed

text \<open>C10 at the sample store with and without the member row of \<open>alex\<close>.\<close>

theorem C10_member_row_irrelevant_witness:
  "determineView sample_store (Ok, Ok, Ok) ''alex'' initial_App =
   determineView (sample_store\<lparr>tbl_roles := [\<lparr>role_user_id = ''root'', role = Admin\<rparr>]\<rparr>)
     (Ok, Ok, Ok) ''alex'' initial_App"
  using C10_member_row_irrelevant [of "''alex''" sample_store
      "sample_store\<lparr>tbl_roles := [\<lparr>role_user_id = ''root'', role = Admin\<rparr>]\<rparr>"
      "(Ok, Ok, Ok)" initial_App]
  by (simp add: sample_defs)

section \<open>Admin decision workflow: claims\<close>

lemmas decision_defs =
  handleDecision_def handleDecision_catch_def update_status_def upsert_member_def
  delete_role_def mutate_def fetchAllUsers_def

text \<open>The store after a decision whose status update and role request are answered.\<close>

lemma handleDecision_store:
  "fst (handleDecision (st, d) (Ok, Ok, nF) i u s) =
     st\<lparr>tbl_access_requests :=
          map (\<lambda>r. if req_id r = i then r\<lparr>status := s\<rparr> else r) (tbl_access_requests st),
        tbl_roles :=
          (if s = Approved
           then upsert_on_user_id \<lparr>role_user_id = u, role = Member\<rparr> (tbl_roles st)
           else filter (\<lambda>r. role_user_id r \<noteq> u) (tbl_roles st))\<rparr>"
  by (simp add: handleDecision_def update_status_def upsert_member_def delete_role_def
      mutate_def Let_def split: completion.split prod.split)

lemma requests_of_update:
  "filter (\<lambda>r. req_user_id r = u)
     (map (\<lambda>r. if req_id r = i then r\<lparr>status := s\<rparr> else r) reqs) =
   map (\<lambda>r. if req_id r = i then r\<lparr>status := s\<rparr> else r)
     (filter (\<lambda>r. req_user_id r = u) reqs)"
  by (induction reqs) auto

lemma no_admin_after_delete:
  "filter (\<lambda>r. role_user_id r = u \<and> role r = Admin)
     (filter (\<lambda>r. role_user_id r \<noteq> u) rows) = []"
  by (induction rows) auto

text \<open>
  C4. Let user \<open>u\<close> have exactly one access request, which is approved, and a role row.
  A decision \<open>rejected\<close> on that request, with the status update and the role delete
  answered, leaves no role row of \<open>u\<close> and the request rejected, and the next
  resolution of \<open>u\<close> (queries answered) yields the rejected view.
\<close>

theorem C4_reject_approved_user:
  assumes "requests_of st u = [req]" and "status req = Approved" and "roles_of st u \<noteq> []"
  shows "roles_of (fst (handleDecision (st, d) (Ok, Ok, nF) (req_id req) u Rejected)) u = [] \<and>
         map status
           (requests_of (fst (handleDecision (st, d) (Ok, Ok, nF) (req_id req) u Rejected)) u)
           = [Rejected] \<and>
         view (determineView (fst (handleDecision (st, d) (Ok, Ok, nF) (req_id req) u Rejected))
                 (Ok, Ok, Ok) u app) = ViewRejected"
proof -
  let ?st' = "fst (handleDecision (st, d) (Ok, Ok, nF) (req_id req) u Rejected)"
  have roles': "tbl_roles ?st' = filter (\<lambda>r. role_user_id r \<noteq> u) (tbl_roles st)"
    by (simp add: handleDecision_store)
  have reqs': "requests_of ?st' u = [req\<lparr>status := Rejected\<rparr>]"
    using assms(1) by (simp add: handleDecision_store requests_of_def requests_of_update)
  have 1: "roles_of ?st' u = []"
    unfolding roles_of_def roles' by (induction "tbl_roles st") auto
  have 2: "map status (requests_of ?st' u) = [Rejected]"
    by (simp add: reqs')
  have "select_admin_role ?st' Ok u = Resolved None None"
    unfolding select_admin_role_def roles' no_admin_after_delete
    by (simp add: await_request_def maybeSingle_def)
  moreover have "select_request ?st' Ok u = Resolved (Some (req\<lparr>status := Rejected\<rparr>)) None"
    using reqs' by (simp add: select_request_def requests_of_def await_request_def maybeSingle_def)
  ultimately have 3: "view (determineView ?st' (Ok, Ok, Ok) u app) = ViewRejected"
    by (simp add: determineView_def)
  from 1 2 3 show ?thesis by simp
qed

text \<open>
  C4 at the approved member \<open>alex\<close> of the sample store.
\<close>

theorem C4_reject_approved_user_witness:
  "requests_of sample_store ''alex'' = [alex_request] \<and> status alex_request = Approved \<and>
   roles_of sample_store ''alex'' \<noteq> [] \<and>
   roles_of (fst (handleDecision (sample_store, sample_Dashboard) (Ok, Ok, Ok, Ok)
                    (req_id alex_request) ''alex'' Rejected)) ''alex'' = [] \<and>
   view (determineView
           (fst (handleDecision (sample_store, sample_Dashboard) (Ok, Ok, Ok, Ok)
                   (req_id alex_request) ''alex'' Rejected))
           (Ok, Ok, Ok) ''alex'' initial_App) = ViewRejected"
proof -
  have h: "requests_of sample_store ''alex'' = [alex_request]" "status alex_request = Approved"
    "roles_of sample_store ''alex'' \<noteq> []"
    by (simp_all add: store_pred_defs sample_defs)
  from C4_reject_approved_user [OF h, of sample_Dashboard "(Ok, Ok)" initial_App] h
  show ?thesis by simp
qed

text \<open>
  C5. When the status update of a decision fails (it resolves with an error, or its
  promise is rejected), the store is what it was, in particular table \<open>roles\<close>; the alert
  is shown and the busy indicator is cleared.
\<close>

theorem C5_failed_status_update_aborts:
  assumes "nUpdate \<noteq> Ok"
  shows "fst (handleDecision (st, d) (nUpdate, nRole, nF) i u s) = st \<and>
         tbl_roles (fst (handleDecision (st, d) (nUpdate, nRole, nF) i u s)) = tbl_roles st \<and>
         dash_alerts (snd (handleDecision (st, d) (nUpdate, nRole, nF) i u s)) =
           dash_alerts d @ [''Failed to update user status''] \<and>
         actionLoading (snd (handleDecision (st, d) (nUpdate, nRole, nF) i u s)) = None"
  using assms
  by (cases nUpdate)
     (simp_all add: handleDecision_def handleDecision_catch_def update_status_def mutate_def)

text \<open>
  C5 at a decision on the sample store whose status update resolves with an error.
\<close>

theorem C5_failed_status_update_aborts_witness:
  "Fails \<noteq> Ok \<and>
   fst (handleDecision (sample_store, sample_Dashboard) (Fails, Ok, Ok, Ok) ''r1'' ''alex''
          Rejected) = sample_store \<and>
   dash_alerts (snd (handleDecision (sample_store, sample_Dashboard) (Fails, Ok, Ok, Ok) ''r1''
          ''alex'' Rejected)) = [''Failed to update user status'']"
proof -
  have h: "Fails \<noteq> Ok" by simp
  from C5_failed_status_update_aborts [OF h, of sample_store sample_Dashboard Ok "(Ok, Ok)"
      "''r1''" "''alex''" Rejected] h
  show ?thesis by (simp add: sample_Dashboard_def)
qed

text \<open>The upsert on \<open>user_id\<close>.\<close>

lemma upsert_on_user_id_rows:
  assumes "distinct (map role_user_id rows)"
  shows "filter (\<lambda>r. role_user_id r = role_user_id row) (upsert_on_user_id row rows) = [row]"
  using assms
proof (induction rows)
  case Nil
  then show ?case by (simp add: upsert_on_user_id_def)
next
  case (Cons x xs)
  show ?case
  proof (cases "role_user_id x = role_user_id row")
    case True
    with Cons.prems have "role_user_id row \<notin> role_user_id ` set xs" by simp
    then have no: "\<forall>y\<in>set xs. role_user_id y \<noteq> role_user_id row" by (metis imageI)
    then have "filter (\<lambda>r. role_user_id r = role_user_id row)
                 (map (\<lambda>r. if role_user_id r = role_user_id row then r\<lparr>role := role row\<rparr> else r) xs)
               = []"
      by (simp add: filter_empty_conv)
    with True show ?thesis by (simp add: upsert_on_user_id_def)
  next
    case False
    with Cons show ?thesis
      by (simp add: upsert_on_user_id_def split: if_splits)
  qed
qed

lemma list_ex_set_role:
  "list_ex (\<lambda>r. role_user_id r = k)
     (map (\<lambda>r. if role_user_id r = k then r\<lparr>role := x\<rparr> else r) rows) =
   list_ex (\<lambda>r. role_user_id r = k) rows"
  by (induction rows) auto

lemma set_role_twice:
  "map (\<lambda>r. if role_user_id r = k then r\<lparr>role := x\<rparr> else r)
     (map (\<lambda>r. if role_user_id r = k then r\<lparr>role := x\<rparr> else r) rows) =
   map (\<lambda>r. if role_user_id r = k then r\<lparr>role := x\<rparr> else r) rows"
  by (induction rows) auto

lemma upsert_on_user_id_idem:
  "upsert_on_user_id row (upsert_on_user_id row rows) = upsert_on_user_id row rows"
proof (cases "list_ex (\<lambda>r. role_user_id r = role_user_id row) rows")
  case True
  then show ?thesis
    by (simp add: upsert_on_user_id_def list_ex_set_role set_role_twice)
next
  case False
  then have "\<forall>r\<in>set rows. role_user_id r \<noteq> role_user_id row"
    by (simp add: list_ex_iff)
  then have "map (\<lambda>r. if role_user_id r = role_user_id row then r\<lparr>role := role row\<rparr> else r) rows
             = rows"
    by (simp add: map_idI)
  with False show ?thesis
    by (simp add: upsert_on_user_id_def)
qed

text \<open>
  C6. With \<open>user_id\<close> unique in \<open>roles\<close>, two approve decisions in succession for user
  \<open>u\<close> (status update and role upsert answered) leave exactly one role row of \<open>u\<close>, the
  member row; the second decision leaves table \<open>roles\<close> as the first one left it.
\<close>

theorem C6_approve_twice:
  assumes "unique_role_users st"
  shows "roles_of (fst (handleDecision (handleDecision (st, d) (Ok, Ok, nF) i u Approved)
                          (Ok, Ok, nF') i u Approved)) u
           = [\<lparr>role_user_id = u, role = Member\<rparr>] \<and>
         tbl_roles (fst (handleDecision (handleDecision (st, d) (Ok, Ok, nF) i u Approved)
                          (Ok, Ok, nF') i u Approved))
           = tbl_roles (fst (handleDecision (st, d) (Ok, Ok, nF) i u Approved))"
proof -
  obtain st1 d1 where one: "handleDecision (st, d) (Ok, Ok, nF) i u Approved = (st1, d1)"
    by (cases "handleDecision (st, d) (Ok, Ok, nF) i u Approved")
  have r1: "tbl_roles st1 = upsert_on_user_id \<lparr>role_user_id = u, role = Member\<rparr> (tbl_roles st)"
    using handleDecision_store [of st d nF i u Approved] one by simp
  have r2: "tbl_roles (fst (handleDecision (st1, d1) (Ok, Ok, nF') i u Approved)) = tbl_roles st1"
    by (simp add: handleDecision_store r1 upsert_on_user_id_idem)
  have "roles_of st1 u = [\<lparr>role_user_id = u, role = Member\<rparr>]"
    using upsert_on_user_id_rows [of "tbl_roles st" "\<lparr>role_user_id = u, role = Member\<rparr>"] assms
    by (simp add: roles_of_def r1 unique_role_users_def)
  with r2 show ?thesis by (simp add: one roles_of_def)
qed

text \<open>
  C6 at two approvals of \<open>alex\<close> in the sample store.
\<close>

theorem C6_approve_twice_witness:
  "unique_role_users sample_store \<and>
   roles_of (fst (handleDecision
                    (handleDecision (sample_store, sample_Dashboard) (Ok, Ok, Ok, Ok) ''r1''
                       ''alex'' Approved)
                    (Ok, Ok, Ok, Ok) ''r1'' ''alex'' Approved)) ''alex''
     = [\<lparr>role_user_id = ''alex'', role = Member\<rparr>]"
proof -
  have h: "unique_role_users sample_store"
    by (simp add: store_pred_defs sample_defs)
  from C6_approve_twice [OF h, of sample_Dashboard "(Ok, Ok)" "''r1''" "''alex''" "(Ok, Ok)"] h
  show ?thesis by simp
qed

section \<open>Message feed: claims\<close>

text \<open>
  A run of the subscription appends the entries of its completed lookups, in that order.
\<close>

lemma feed_run_messages: "messages (feed_run es c) = messages c @ entries es"
proof (induction es arbitrary: c)
  case Nil
  then show ?case by (simp add: feed_run_def)
next
  case (Cons e es)
  have run: "feed_run (e # es) c = feed_run es (feed_step c e)"
    by (simp add: feed_run_def)
  show ?case
  proof (cases e)
    case (InsertArrived m)
    with Cons run show ?thesis by simp
  next
    case (LookupDone m r)
    show ?thesis
    proof (cases r)
      case Threw
      with LookupDone Cons run show ?thesis by (simp add: on_insert_resume_def)
    next
      case (Resolved d err)
      with LookupDone Cons run show ?thesis
        by (cases d) (simp_all add: on_insert_resume_def)
    qed
  qed
qed

text \<open>
  C7 (as amended). Once the response of the bulk fetch is installed, the displayed
  sequence is that snapshot (all messages in ascending order of \<open>created_at\<close>, each with
  the profile of its sender if there is one) followed by one entry per insert event
  whose profile lookup completes afterwards, in the order in which the lookups
  complete. What was appended before the snapshot arrived (\<open>before\<close>) is replaced by it.
  Nothing is sorted again and nothing is removed.
\<close>

theorem C7_feed_sequence:
  "messages (feed_run after (fetchMessages_resume (select_messages st Ok)
               (feed_run before (fetchMessages_begin c)))) =
     map (\<lambda>m. m\<lparr>profiles := find (\<lambda>p. prof_user_id p = sender_id m) (tbl_profiles st)\<rparr>)
       (sort_key msg_created_at (tbl_messages st)) @ entries after \<and>
   sorted (map msg_created_at (messages (fetchMessages_resume (select_messages st Ok) c)))"
proof -
  have snap: "messages (fetchMessages_resume (select_messages st Ok) c') =
      map (\<lambda>m. m\<lparr>profiles := find (\<lambda>p. prof_user_id p = sender_id m) (tbl_profiles st)\<rparr>)
        (sort_key msg_created_at (tbl_messages st))" for c'
    by (simp add: fetchMessages_resume_def select_messages_def await_request_def)
  have "map msg_created_at
          (map (\<lambda>m. m\<lparr>profiles := find (\<lambda>p. prof_user_id p = sender_id m) (tbl_profiles st)\<rparr>)
             (sort_key msg_created_at (tbl_messages st))) =
        map msg_created_at (sort_key msg_created_at (tbl_messages st))"
    by (simp add: comp_def)
  then have "sorted (map msg_created_at (messages (fetchMessages_resume (select_messages st Ok) c)))"
    by (simp only: snap sorted_sort_key)
  then show ?thesis
    by (simp add: feed_run_messages snap)
qed

text \<open>
  C7 as stated fails: two events arrive in the order \<open>m1\<close>, \<open>m2\<close> and the lookup of \<open>m2\<close>
  completes first; the sequence displayed after the snapshot is \<open>m2\<close>, \<open>m1\<close>.
\<close>

theorem C7_arrival_order_counterexample:
  "map msg_id (arrivals sample_run) = [''m1'', ''m2''] \<and>
   map msg_id (messages (feed_run sample_run
       (fetchMessages_resume (select_messages sample_store Ok)
          (fetchMessages_begin sample_Chat)))) = [''m9'', ''m0'', ''m2'', ''m1''] \<and>
   [''m9'', ''m0'', ''m2'', ''m1''] \<noteq> [''m9'', ''m0''] @ map msg_id (arrivals sample_run)"
  by (simp add: sample_run_def sample_defs feed_run_def on_insert_resume_def
      fetchMessages_resume_def fetchMessages_begin_def select_messages_def
      select_sender_profile_def await_request_def single_def)

text \<open>
  The resolver gives an admin without profile row the temporary profile.
\<close>

lemma admin_without_profile:
  assumes "unique_role_users st" and "is_admin st u" and "\<not> has_profile st u"
  shows "userProfile (determineView st (Ok, nR, Ok) u app) = Some (temp_profile u)"
proof -
  from assms(2) obtain r where
    r: "find (\<lambda>r. role_user_id r = u \<and> role r = Admin) (tbl_roles st) = Some r"
    using find_None_list_ex [of "\<lambda>r. role_user_id r = u \<and> role r = Admin" "tbl_roles st"]
    by (auto simp: is_admin_def)
  from assms(3) have "filter (\<lambda>p. prof_user_id p = u) (tbl_profiles st) = []"
    by (simp add: has_profile_def list_ex_iff filter_empty_conv)
  then have "select_profile st Ok u = Resolved None None"
    by (simp add: select_profile_def await_request_def maybeSingle_def)
  then show ?thesis
    by (simp add: determineView_def select_admin_role_Ok assms(1) r)
qed

text \<open>
  C8 (as amended). For an insert event whose sender has no profile row (lookup not
  rejected), the entry appended carries the dummy profile of the feed. It agrees with
  the temporary profile of the resolver in the user name \<open>Admin\<close> and in the user id, and
  both have no picture (\<open>null\<close> in the feed, the empty string in the resolver); the bio
  and the id differ.
\<close>

theorem C8_dummy_profile:
  assumes "\<not> has_profile st (sender_id m)" and "n \<noteq> Throws"
  shows "messages (on_insert_resume m (select_sender_profile st n (sender_id m)) c) =
           messages c @ [m\<lparr>profiles := Some (dummy_profile (sender_id m))\<rparr>] \<and>
         username (dummy_profile (sender_id m)) = username (temp_profile (sender_id m)) \<and>
         prof_user_id (dummy_profile (sender_id m)) = prof_user_id (temp_profile (sender_id m)) \<and>
         dp_url (dummy_profile (sender_id m)) = None \<and>
         dp_url (temp_profile (sender_id m)) = Some [] \<and>
         bio (dummy_profile (sender_id m)) = ''Administrator'' \<and>
         bio (temp_profile (sender_id m)) = ''System Administrator'' \<and>
         prof_id (dummy_profile (sender_id m)) = ''admin'' \<and>
         prof_id (temp_profile (sender_id m)) = ''admin-temp''"
proof -
  from assms(1) have "filter (\<lambda>p. prof_user_id p = sender_id m) (tbl_profiles st) = []"
    by (simp add: has_profile_def list_ex_iff filter_empty_conv)
  with assms(2) have "\<exists>e. select_sender_profile st n (sender_id m) = Resolved None e"
    by (cases n) (simp_all add: select_sender_profile_def await_request_def single_def)
  then show ?thesis
    by (auto simp: on_insert_resume_def dummy_profile_def temp_profile_def)
qed

text \<open>
  The amended C8 at an insert event of the admin \<open>root\<close>, who has no profile row.
\<close>

theorem C8_dummy_profile_witness:
  "\<not> has_profile sample_store (sender_id (msg_of ''m2'' ''root'' 11)) \<and> Ok \<noteq> Throws \<and>
   messages (on_insert_resume (msg_of ''m2'' ''root'' 11)
      (select_sender_profile sample_store Ok (sender_id (msg_of ''m2'' ''root'' 11))) sample_Chat) =
     [(msg_of ''m2'' ''root'' 11)\<lparr>profiles := Some (dummy_profile ''root'')\<rparr>]"
proof -
  have h: "\<not> has_profile sample_store (sender_id (msg_of ''m2'' ''root'' 11))" "Ok \<noteq> Throws"
    by (simp_all add: store_pred_defs sample_defs)
  from C8_dummy_profile [OF h, of sample_Chat] h
  show ?thesis by (simp add: sample_Chat_def msg_of_def)
qed

text \<open>
  C8 as stated fails: for the admin \<open>root\<close> of the sample store, the profile that the
  resolver sets and the profile that the feed attaches are different records.
\<close>

theorem C8_placeholders_differ_counterexample:
  "userProfile (determineView sample_store (Ok, Ok, Ok) ''root'' initial_App) =
     Some (temp_profile ''root'') \<and>
   map profiles (messages (on_insert_resume (msg_of ''m2'' ''root'' 11)
       (select_sender_profile sample_store Ok ''root'') sample_Chat)) =
     [Some (dummy_profile ''root'')] \<and>
   bio (temp_profile ''root'') = ''System Administrator'' \<and>
   bio (dummy_profile ''root'') = ''Administrator'' \<and>
   dummy_profile ''root'' \<noteq> temp_profile ''root''"
  by (simp add: sample_defs determineView_def query_defs select_sender_profile_def
      on_insert_resume_def dummy_profile_def temp_profile_def)

section \<open>Failing workflow operations: claims\<close>

text \<open>
  What each handler leaves when it reaches its \<open>catch\<close> block: a decision shows the
  alert; an upload and a send write to the console only.
\<close>

lemma handleDecision_failure:
  assumes "nUpdate \<noteq> Ok \<or> nRole = Throws"
  shows "snd (handleDecision (st, d) (nUpdate, nRole, nF) i u s) =
           d\<lparr>dash_console := dash_console d @ [''Error processing decision:''],
             dash_alerts := dash_alerts d @ [''Failed to update user status''],
             actionLoading := None\<rparr>"
  using assms
  by (cases nUpdate; cases nRole)
     (simp_all add: handleDecision_def handleDecision_catch_def update_status_def
       upsert_member_def delete_role_def mutate_def)

lemma uploadAudio_failure:
  assumes "nUpload \<noteq> Ok"
  shows "uploadAudio (st, c) (nUpload, nInsert) now gen u blob =
           (st, c\<lparr>chat_console := chat_console c @ [''Error uploading audio:''],
                  sending := False\<rparr>)"
  using assms
  by (cases nUpload) (simp_all add: uploadAudio_def upload_def upload_catch_def)

lemma handleImageUpload_failure:
  assumes "nUpload \<noteq> Ok"
  shows "handleImageUpload (st, c) (nUpload, nInsert) now gen u (Some f) =
           (st, c\<lparr>chat_console := chat_console c @ [''Error uploading image:''],
                  sending := False\<rparr>)"
  using assms
  by (cases nUpload) (simp_all add: handleImageUpload_def upload_def upload_catch_def)

lemma handleSendMessage_Throws:
  "handleSendMessage (st, c) Throws gen u ty body =
     (st, c\<lparr>chat_console := chat_console c @ [''insert rejected''], sending := False\<rparr>)"
  by (simp add: handleSendMessage_def insert_message_def mutate_def)

text \<open>
  A send whose insert resolves with an error takes the path of a successful send: the
  response is dropped, nothing is stored, the composer is emptied and nothing is
  written or shown.
\<close>

lemma handleSendMessage_Fails:
  "handleSendMessage (st, c) Fails gen u ty body =
     (st, c\<lparr>newMessage := [], sending := False\<rparr>)"
  by (simp add: handleSendMessage_def insert_message_def mutate_def)

text \<open>
  C9. A failing workflow operation does not always leave a notice and the state before
  the action. In the sample store, user \<open>alex\<close> sends the text \<open>hello\<close> and the insert
  resolves with an error: no message is stored, yet the composer is emptied as on
  success, no alert is shown and nothing is logged. An admin rejects the request of
  \<open>alex\<close> and the role delete resolves with an error: the request is rejected, the role
  row is still there, and no alert is shown.
\<close>

theorem C9_failed_send_clears_composer:
  "newMessage sample_Chat = ''hello'' \<and>
   fst (handleSendMessage (sample_store, sample_Chat) Fails (''m3'', 12) ''alex'' Text ''hello'')
     = sample_store \<and>
   newMessage (snd (handleSendMessage (sample_store, sample_Chat) Fails (''m3'', 12) ''alex''
      Text ''hello'')) = [] \<and>
   chat_alerts (snd (handleSendMessage (sample_store, sample_Chat) Fails (''m3'', 12) ''alex''
      Text ''hello'')) = [] \<and>
   chat_console (snd (handleSendMessage (sample_store, sample_Chat) Fails (''m3'', 12) ''alex''
      Text ''hello'')) = [] \<and>
   sending (snd (handleSendMessage (sample_store, sample_Chat) Fails (''m3'', 12) ''alex''
      Text ''hello'')) = False \<and>
   dash_alerts (snd (handleDecision (sample_store, sample_Dashboard) (Ok, Fails, Ok, Ok) ''r1''
      ''alex'' Rejected)) = [] \<and>
   map status (requests_of (fst (handleDecision (sample_store, sample_Dashboard)
      (Ok, Fails, Ok, Ok) ''r1'' ''alex'' Rejected)) ''alex'') = [Rejected] \<and>
   roles_of (fst (handleDecision (sample_store, sample_Dashboard) (Ok, Fails, Ok, Ok) ''r1''
      ''alex'' Rejected)) ''alex'' = [\<lparr>role_user_id = ''alex'', role = Member\<rparr>]"
  by (simp add: sample_defs store_pred_defs handleSendMessage_def insert_message_def
      decision_defs select_decided_requests_def select_profiles_in_def await_request_def
      Let_def)

end
